theory Spec2Isabelle
  imports Main "HOL-Library.Word"
begin

unbundle bit_operations_syntax

section \<open>Machine types of the index format\<close>

text \<open>
  The index stores every integer as a \<open>diskint<T>\<close>, which converts to the plain
  integer type \<open>T\<close> whenever it is read, so a field is modelled by the value of type
  \<open>T\<close> it holds. \<open>unsigned\<close> is 32 bits wide (\<open>SENTINEL_DEPTH\<close> is documented as
  \<open>0xFFFFFFFE\<close>); \<open>Time\<close>, \<open>Addr\<close> and \<open>OFF_T\<close> are 64-bit unsigned integers.
  Comparison functions return a C \<open>int\<close> that is only ever \<open>-1\<close>, \<open>0\<close> or \<open>+1\<close>.
\<close>

type_synonym unsigned = "32 word"
type_synonym Time = "64 word"
type_synonym Addr = "64 word"
type_synonym OFF_T = "64 word"

section \<open>Indexer parameters (index.hh)\<close>

record IndexerParams =
  record_memory :: bool
  record_calls :: bool

text \<open>The default member initialisers: both features are recorded.\<close>

definition IndexerParams_default :: IndexerParams where
  "IndexerParams_default = \<lparr>record_memory = True, record_calls = True\<rparr>"

definition can_store_on_disk :: "IndexerParams \<Rightarrow> bool" where
  "can_store_on_disk p = (record_memory p \<and> record_calls p)"

text \<open>
  The parameters that \<open>main\<close> of the calltree tool hands to the indexer: a default
  object whose \<open>record_memory\<close> is then cleared.
\<close>

definition calltree_iparams :: IndexerParams where
  "calltree_iparams = IndexerParams_default\<lparr>record_memory := False\<rparr>"

section \<open>The sequential-order tree payload (index\_ds.hh)\<close>

record SeqOrderPayload =
  mod_time :: Time
  pc :: Addr
  trace_file_pos :: OFF_T
  trace_file_len :: OFF_T
  trace_file_firstline :: unsigned
  trace_file_lines :: unsigned
  memory_root :: OFF_T
  call_depth :: unsigned

definition SeqOrderPayload_cmp :: "SeqOrderPayload \<Rightarrow> SeqOrderPayload \<Rightarrow> int" where
  "SeqOrderPayload_cmp this rhs =
     (if SeqOrderPayload.trace_file_firstline this \<noteq> SeqOrderPayload.trace_file_firstline rhs
      then (if SeqOrderPayload.trace_file_firstline this < SeqOrderPayload.trace_file_firstline rhs
            then - 1 else 1)
      else 0)"

section \<open>The PC tree payload (index\_ds.hh)\<close>

record ByPCPayload =
  pc :: Addr
  trace_file_firstline :: unsigned

definition ByPCPayload_cmp :: "ByPCPayload \<Rightarrow> ByPCPayload \<Rightarrow> int" where
  "ByPCPayload_cmp this rhs =
     (if ByPCPayload.pc this \<noteq> ByPCPayload.pc rhs
      then (if ByPCPayload.pc this < ByPCPayload.pc rhs then - 1 else 1)
      else if ByPCPayload.trace_file_firstline this \<noteq> ByPCPayload.trace_file_firstline rhs
      then (if ByPCPayload.trace_file_firstline this < ByPCPayload.trace_file_firstline rhs
            then - 1 else 1)
      else 0)"

section \<open>The memory tree payload and annotation (index\_ds.hh)\<close>

text \<open>
  The address-space tag is a C \<open>char\<close>. Whether \<open>char\<close> is signed is left to the
  platform, so the comparison of two tags takes the signedness as a parameter:
  \<open>char_less True\<close> compares the bytes as signed values, \<open>char_less False\<close> as
  unsigned ones.
\<close>

type_synonym char_t = "8 word"

definition char_less :: "bool \<Rightarrow> char_t \<Rightarrow> char_t \<Rightarrow> bool" where
  "char_less char_is_signed x y = (if char_is_signed then x <s y else x < y)"

record MemoryPayload =
  type :: char_t
  raw :: bool
  lo :: Addr
  hi :: Addr
  contents :: OFF_T
  trace_file_firstline :: unsigned

definition MemoryPayload_cmp :: "bool \<Rightarrow> MemoryPayload \<Rightarrow> MemoryPayload \<Rightarrow> int" where
  "MemoryPayload_cmp char_is_signed this rhs =
     (if MemoryPayload.type this \<noteq> MemoryPayload.type rhs
      then (if char_less char_is_signed (MemoryPayload.type this) (MemoryPayload.type rhs) then - 1 else 1)
      else if MemoryPayload.hi this < MemoryPayload.lo rhs then - 1
      else if MemoryPayload.lo this > MemoryPayload.hi rhs then 1
      else 0)"

text \<open>
  The three constructors of the annotation: the default one, the one lifting a single
  payload, and the one combining the annotations of two subtrees. The additions and the
  subtraction of the combiner are \<open>unsigned\<close> arithmetic and wrap modulo \<open>2^32\<close>.
\<close>

record MemoryAnnotation =
  latest :: unsigned

definition MemoryAnnotation_default :: MemoryAnnotation where
  "MemoryAnnotation_default = \<lparr>latest = 0\<rparr>"

definition MemoryAnnotation_of_payload :: "MemoryPayload \<Rightarrow> MemoryAnnotation" where
  "MemoryAnnotation_of_payload p = \<lparr>latest = MemoryPayload.trace_file_firstline p\<rparr>"

definition MemoryAnnotation_combine :: "MemoryAnnotation \<Rightarrow> MemoryAnnotation \<Rightarrow> MemoryAnnotation" where
  "MemoryAnnotation_combine lhs rhs = \<lparr>latest = max (latest lhs + 1) (latest rhs + 1) - 1\<rparr>"

text \<open>
  A raw memory-tree payload with the given address-space tag (109 is \<open>'m'\<close>, 114 is
  \<open>'r'\<close>) and bounds, for stating concrete instances.
\<close>

abbreviation memory_region :: "char_t \<Rightarrow> Addr \<Rightarrow> Addr \<Rightarrow> MemoryPayload" where
  "memory_region t l h \<equiv>
     \<lparr>type = t, raw = True, lo = l, hi = h, contents = 0, trace_file_firstline = 1\<rparr>"

section \<open>The memory sub-tree payload (index\_ds.hh)\<close>

record MemorySubPayload =
  lo :: Addr
  hi :: Addr
  contents :: OFF_T

definition MemorySubPayload_cmp :: "MemorySubPayload \<Rightarrow> MemorySubPayload \<Rightarrow> int" where
  "MemorySubPayload_cmp this rhs =
     (if MemorySubPayload.hi this < MemorySubPayload.lo rhs then - 1
      else if MemorySubPayload.lo this > MemorySubPayload.hi rhs then 1
      else 0)"

section \<open>Call-depth arrays of the sequential-order tree (index\_ds.hh)\<close>

definition UINT_MAX :: unsigned where
  "UINT_MAX = 4294967295"

definition SENTINEL_DEPTH :: unsigned where
  "SENTINEL_DEPTH = UINT_MAX - 1"

record CallDepthArrayEntry =
  call_depth :: unsigned
  cumulative_lines :: unsigned
  cumulative_insns :: unsigned
  leftlink :: OFF_T
  rightlink :: OFF_T

text \<open>
  Modelled from the spec: the post-pass that writes the call-depth arrays is part of
  \<open>lib/index.cpp\<close>, which is not among the sources. The array of a leaf node follows
  the format description in \<open>index_ds.hh\<close> (the minimal example of the arrays, found in
  leaf nodes: two entries, the first with a real depth value and cumulative counts equal
  to 0, the second with \<open>SENTINEL_DEPTH\<close>, a cumulative instruction count of 1 and a
  cumulative line count of however many trace lines the node covers), which the
  layered-range invariant of the specification repeats (the last entry's
  \<open>cumulative_insns\<close> is the number of nodes of the subtree, its \<open>cumulative_lines\<close>
  the sum of their \<open>trace_file_lines\<close>). A leaf has no child arrays for the cross-links
  to point into; they are written as 0.
\<close>

definition leaf_call_depth_array :: "SeqOrderPayload \<Rightarrow> CallDepthArrayEntry list" where
  "leaf_call_depth_array node =
     [\<lparr>call_depth = SeqOrderPayload.call_depth node, cumulative_lines = 0,
       cumulative_insns = 0, leftlink = 0, rightlink = 0\<rparr>,
      \<lparr>call_depth = SENTINEL_DEPTH, cumulative_lines = trace_file_lines node,
       cumulative_insns = 1, leftlink = 0, rightlink = 0\<rparr>]"

section \<open>Magic number and file header (index\_ds.hh, index.hh)\<close>

record MagicNumber =
  magic :: "char_t list"

record FileHeader =
  flags :: unsigned
  seqroot :: OFF_T
  bypcroot :: OFF_T
  lineno_offset :: unsigned

definition FLAG_BIGEND :: unsigned where
  "FLAG_BIGEND = 1"

definition FLAG_AARCH64_USED :: unsigned where
  "FLAG_AARCH64_USED = 2"

definition FLAG_COMPLETE :: unsigned where
  "FLAG_COMPLETE = 4"

definition FLAG_THUMB_ONLY :: unsigned where
  "FLAG_THUMB_ONLY = 8"

datatype IndexHeaderState = OK | WrongMagic | Incomplete

text \<open>
  Modelled from the spec: \<open>MagicNumber::check\<close> is defined in \<open>lib/index_ds.cpp\<close>,
  which is not among the sources, and so is the reference value \<open>reference_copy\<close> (17
  bytes, the last one a terminating NUL), taken here as a parameter. The check succeeds
  when the 16 stored bytes are the first 16 bytes of the reference value.
\<close>

definition MagicNumber_check :: "char_t list \<Rightarrow> MagicNumber \<Rightarrow> bool" where
  "MagicNumber_check reference_copy m = (magic m = take 16 reference_copy)"

text \<open>
  Modelled from the spec: \<open>check_index_header\<close> is declared in \<open>index.hh\<close> and defined
  in \<open>lib/index.cpp\<close>, which is not among the sources. The index file is represented
  by the magic number and the file header it starts with. A magic number that does not
  match gives \<open>WrongMagic\<close>; after a valid magic number, the absence of the
  \<open>COMPLETE\<close> flag gives \<open>Incomplete\<close>; otherwise the result is \<open>OK\<close>.
\<close>

definition check_index_header :: "char_t list \<Rightarrow> MagicNumber \<Rightarrow> FileHeader \<Rightarrow> IndexHeaderState" where
  "check_index_header reference_copy m hdr =
     (if \<not> MagicNumber_check reference_copy m then WrongMagic
      else if flags hdr AND FLAG_COMPLETE = 0 then Incomplete
      else OK)"

section \<open>The layered range tree of the sequential-order tree (index\_ds.hh, index.hh)\<close>

text \<open>
  Modelled from the spec: the post-pass that decorates the sequential-order tree and the
  lookups declared in \<open>index.hh\<close> are defined in \<open>lib/index.cpp\<close>, which is not
  among the sources. The finished sequential-order tree is a binary tree of payloads, in
  trace order from left to right; an absent child is \<open>SeqNil\<close>. Every node contributes
  \<open>trace_file_lines\<close> trace lines at its call depth, and a depth range
  \<open>[mindepth, maxdepth)\<close> is half open.
\<close>

datatype seqtree = SeqNil | SeqNode seqtree SeqOrderPayload seqtree

fun seq_nodes :: "seqtree \<Rightarrow> SeqOrderPayload list" where
  "seq_nodes SeqNil = []"
| "seq_nodes (SeqNode l p r) = seq_nodes l @ p # seq_nodes r"

definition depth_in_range :: "unsigned \<Rightarrow> unsigned \<Rightarrow> unsigned \<Rightarrow> bool" where
  "depth_in_range mindepth maxdepth d = (mindepth \<le> d \<and> d < maxdepth)"

definition trace_line_depths :: "SeqOrderPayload list \<Rightarrow> unsigned list" where
  "trace_line_depths nodes =
     concat (map (\<lambda>p. replicate (unat (trace_file_lines p)) (SeqOrderPayload.call_depth p)) nodes)"

text \<open>
  A finished index has every call depth below \<open>SENTINEL_DEPTH\<close>: the format
  description of \<open>index_ds.hh\<close> assumes that nothing recurses by \<open>2^32\<close> levels.
\<close>

definition good_depths :: "seqtree \<Rightarrow> bool" where
  "good_depths t = list_all (\<lambda>p. SeqOrderPayload.call_depth p < SENTINEL_DEPTH) (seq_nodes t)"

text \<open>
  Modelled from the spec: the post-pass builds the array of a node by merging the array
  of the left child, the node's own contribution (the two entries of a leaf) and the
  array of the right child, sorted by call depth ascending; every depth value of the
  three contributes one entry and equal depths collapse. The cumulative counts of the
  entry at depth \<open>D\<close> are the sums of the counts that the three arrays give for
  \<open>D\<close>, each read at the first entry with depth \<open>\<ge> D\<close> (\<open>first_ge\<close>), and the two
  cross-links are the indices of those first entries in the children's arrays. An absent
  child has the empty array, which contributes no depth and count 0. The array is a
  function of the subtree, so reading the annotation of a node is \<open>call_depth_array\<close>
  of the subtree rooted there.
\<close>

definition first_ge :: "CallDepthArrayEntry list \<Rightarrow> unsigned \<Rightarrow> nat" where
  "first_ge arr D = length (takeWhile (\<lambda>e. CallDepthArrayEntry.call_depth e < D) arr)"

definition array_lines :: "CallDepthArrayEntry list \<Rightarrow> nat \<Rightarrow> unsigned" where
  "array_lines arr i = (if i < length arr then cumulative_lines (arr ! i) else 0)"

definition array_insns :: "CallDepthArrayEntry list \<Rightarrow> nat \<Rightarrow> unsigned" where
  "array_insns arr i = (if i < length arr then cumulative_insns (arr ! i) else 0)"

definition merge_arrays ::
  "CallDepthArrayEntry list \<Rightarrow> CallDepthArrayEntry list \<Rightarrow> CallDepthArrayEntry list
     \<Rightarrow> CallDepthArrayEntry list" where
  "merge_arrays A P B =
     map (\<lambda>D. \<lparr>call_depth = D,
               cumulative_lines = array_lines A (first_ge A D) + array_lines P (first_ge P D)
                                    + array_lines B (first_ge B D),
               cumulative_insns = array_insns A (first_ge A D) + array_insns P (first_ge P D)
                                    + array_insns B (first_ge B D),
               leftlink = of_nat (first_ge A D), rightlink = of_nat (first_ge B D)\<rparr>)
       (sort (remdups (map CallDepthArrayEntry.call_depth (A @ P @ B))))"

fun call_depth_array :: "seqtree \<Rightarrow> CallDepthArrayEntry list" where
  "call_depth_array SeqNil = []"
| "call_depth_array (SeqNode l p r) =
     merge_arrays (call_depth_array l) (leaf_call_depth_array p) (call_depth_array r)"














abbreviation node_lines :: "SeqOrderPayload \<Rightarrow> unsigned list" where
  "node_lines p \<equiv> replicate (unat (trace_file_lines p)) (SeqOrderPayload.call_depth p)"

definition tree_lines :: "seqtree \<Rightarrow> unsigned list" where
  "tree_lines t = trace_line_depths (seq_nodes t)"

definition range_count :: "unsigned \<Rightarrow> unsigned \<Rightarrow> unsigned list \<Rightarrow> nat" where
  "range_count lower upper ds = length (filter (depth_in_range lower upper) ds)"

definition lines_below :: "unsigned \<Rightarrow> unsigned list \<Rightarrow> nat" where
  "lines_below D ds = length (filter (\<lambda>x. x < D) ds)"




section \<open>Properties of the indexer parameters\<close>

text \<open>
  C6. An index may be stored on disk exactly when both optional parts are recorded:
  \<open>can_store_on_disk\<close> is true if and only if \<open>record_memory\<close> and \<open>record_calls\<close>
  are both true. The parameters the calltree tool builds (memory recording switched off)
  therefore never allow a disk-based index.
\<close>

theorem can_store_on_disk_iff:
  "can_store_on_disk p = (record_memory p \<and> record_calls p)
   \<and> can_store_on_disk \<lparr>record_memory = True, record_calls = True\<rparr>
   \<and> \<not> can_store_on_disk \<lparr>record_memory = False, record_calls = rc\<rparr>
   \<and> \<not> can_store_on_disk \<lparr>record_memory = rm, record_calls = False\<rparr>
   \<and> \<not> can_store_on_disk calltree_iparams"
  by (simp add: can_store_on_disk_def calltree_iparams_def IndexerParams_default_def)

section \<open>Properties of the comparison functions\<close>

text \<open>
  C3. The comparison of two sequential-order payloads looks at \<open>trace_file_firstline\<close>
  only: it is \<open>-1\<close> when the left first line is smaller, \<open>+1\<close> when it is greater and
  \<open>0\<close> when the two are equal. Changing the timestamp, the pc, the byte range, the
  line count, the memory root or the call depth of either argument leaves the result
  unchanged, so two payloads with the same first line and different timestamps compare
  equal.
\<close>

theorem SeqOrderPayload_cmp_firstline_only:
  "SeqOrderPayload_cmp a b =
     (if SeqOrderPayload.trace_file_firstline a < SeqOrderPayload.trace_file_firstline b then - 1
      else if SeqOrderPayload.trace_file_firstline b < SeqOrderPayload.trace_file_firstline a then 1
      else 0)
   \<and> SeqOrderPayload_cmp
        \<lparr>mod_time = t1, SeqOrderPayload.pc = p1, trace_file_pos = o1, trace_file_len = n1,
         SeqOrderPayload.trace_file_firstline = l, trace_file_lines = k1, memory_root = m1,
         SeqOrderPayload.call_depth = d1\<rparr>
        \<lparr>mod_time = t2, SeqOrderPayload.pc = p2, trace_file_pos = o2, trace_file_len = n2,
         SeqOrderPayload.trace_file_firstline = l, trace_file_lines = k2, memory_root = m2,
         SeqOrderPayload.call_depth = d2\<rparr> = 0
   \<and> SeqOrderPayload_cmp
        (a\<lparr>mod_time := t1, SeqOrderPayload.pc := p1, trace_file_pos := o1, trace_file_len := n1,
           trace_file_lines := k1, memory_root := m1, SeqOrderPayload.call_depth := d1\<rparr>)
        (b\<lparr>mod_time := t2, SeqOrderPayload.pc := p2, trace_file_pos := o2, trace_file_len := n2,
           trace_file_lines := k2, memory_root := m2, SeqOrderPayload.call_depth := d2\<rparr>)
      = SeqOrderPayload_cmp a b"
  by (auto simp add: SeqOrderPayload_cmp_def)

text \<open>
  C8. The comparison of two PC-tree payloads orders by \<open>pc\<close> first and by
  \<open>trace_file_firstline\<close> second: when the pcs differ the result is \<open>-1\<close> or \<open>+1\<close>
  according to the pcs, otherwise it is \<open>-1\<close> or \<open>+1\<close> according to the first lines,
  and it is \<open>0\<close> exactly when both fields agree. Swapping the arguments negates the
  result and the induced order is transitive, so it is a total order on the
  (pc, first line) pairs.
\<close>

theorem ByPCPayload_cmp_lexicographic:
  "ByPCPayload_cmp a b =
     (if ByPCPayload.pc a < ByPCPayload.pc b then - 1
      else if ByPCPayload.pc b < ByPCPayload.pc a then 1
      else if ByPCPayload.trace_file_firstline a < ByPCPayload.trace_file_firstline b then - 1
      else if ByPCPayload.trace_file_firstline b < ByPCPayload.trace_file_firstline a then 1
      else 0)
   \<and> (ByPCPayload_cmp a b = 0) =
       (ByPCPayload.pc a = ByPCPayload.pc b
        \<and> ByPCPayload.trace_file_firstline a = ByPCPayload.trace_file_firstline b)
   \<and> ByPCPayload_cmp b a = - ByPCPayload_cmp a b
   \<and> (ByPCPayload_cmp a b \<le> 0 \<and> ByPCPayload_cmp b c \<le> 0 \<longrightarrow> ByPCPayload_cmp a c \<le> 0)"
  by (auto simp add: ByPCPayload_cmp_def split: if_splits)

theorem ByPCPayload_cmp_lexicographic_witness:
  "ByPCPayload_cmp \<lparr>pc = 256, trace_file_firstline = 8\<rparr> \<lparr>pc = 256, trace_file_firstline = 15\<rparr> \<le> 0
   \<and> ByPCPayload_cmp \<lparr>pc = 256, trace_file_firstline = 15\<rparr> \<lparr>pc = 260, trace_file_firstline = 4\<rparr> \<le> 0
   \<and> ByPCPayload_cmp \<lparr>pc = 256, trace_file_firstline = 8\<rparr> \<lparr>pc = 260, trace_file_firstline = 4\<rparr> \<le> 0"
proof -
  have h: "ByPCPayload_cmp \<lparr>pc = 256, trace_file_firstline = 8\<rparr> \<lparr>pc = 256, trace_file_firstline = 15\<rparr> \<le> 0
           \<and> ByPCPayload_cmp \<lparr>pc = 256, trace_file_firstline = 15\<rparr> \<lparr>pc = 260, trace_file_firstline = 4\<rparr> \<le> 0"
    by (simp add: ByPCPayload_cmp_def)
  show ?thesis
    using h ByPCPayload_cmp_lexicographic
      [of "\<lparr>pc = 256, trace_file_firstline = 8\<rparr>" "\<lparr>pc = 256, trace_file_firstline = 15\<rparr>"
          "\<lparr>pc = 260, trace_file_firstline = 4\<rparr>"]
    by blast
qed

section \<open>The interval comparisons of the memory trees\<close>

lemma char_less_swap: "x \<noteq> y \<Longrightarrow> char_less sc y x = (\<not> char_less sc x y)"
  by (auto simp add: char_less_def)

lemma interval_meet_iff:
  "l1 \<le> h1 \<Longrightarrow> l2 \<le> h2 \<Longrightarrow> ({l1..h1} \<inter> {l2..h2} \<noteq> {}) = (l2 \<le> h1 \<and> l1 \<le> (h2 :: 64 word))"
  by (simp add: Int_atLeastAtMost)

text \<open>
  C2, on well-formed intervals. \<open>MemoryPayload::cmp\<close> compares by the address-space
  tag first: when the tags differ the result is \<open>-1\<close> or \<open>+1\<close> according to the tags
  alone. When the tags are equal and both payloads have \<open>lo \<le> hi\<close>, the result is
  \<open>-1\<close> if \<open>a.hi < b.lo\<close>, \<open>+1\<close> if \<open>a.lo > b.hi\<close>, and \<open>0\<close> exactly when the
  inclusive intervals \<open>[a.lo, a.hi]\<close> and \<open>[b.lo, b.hi]\<close> have an address in common.
  \<open>MemorySubPayload::cmp\<close> behaves in the same way, without the tag.
\<close>

theorem MemoryPayload_cmp_overlap:
  "(MemoryPayload.type a \<noteq> MemoryPayload.type b \<longrightarrow>
      MemoryPayload_cmp sc a b =
        (if char_less sc (MemoryPayload.type a) (MemoryPayload.type b) then - 1 else 1))
   \<and> (MemoryPayload.type a = MemoryPayload.type b
        \<and> MemoryPayload.lo a \<le> MemoryPayload.hi a \<and> MemoryPayload.lo b \<le> MemoryPayload.hi b \<longrightarrow>
      (MemoryPayload.hi a < MemoryPayload.lo b \<longrightarrow> MemoryPayload_cmp sc a b = - 1)
      \<and> (MemoryPayload.hi b < MemoryPayload.lo a \<longrightarrow> MemoryPayload_cmp sc a b = 1)
      \<and> (MemoryPayload_cmp sc a b = 0) =
          ({MemoryPayload.lo a..MemoryPayload.hi a} \<inter> {MemoryPayload.lo b..MemoryPayload.hi b} \<noteq> {}))
   \<and> (MemorySubPayload.lo s \<le> MemorySubPayload.hi s
        \<and> MemorySubPayload.lo t \<le> MemorySubPayload.hi t \<longrightarrow>
      (MemorySubPayload.hi s < MemorySubPayload.lo t \<longrightarrow> MemorySubPayload_cmp s t = - 1)
      \<and> (MemorySubPayload.hi t < MemorySubPayload.lo s \<longrightarrow> MemorySubPayload_cmp s t = 1)
      \<and> (MemorySubPayload_cmp s t = 0) =
          ({MemorySubPayload.lo s..MemorySubPayload.hi s}
             \<inter> {MemorySubPayload.lo t..MemorySubPayload.hi t} \<noteq> {}))"
  by (auto simp add: MemoryPayload_cmp_def MemorySubPayload_cmp_def interval_meet_iff)

theorem MemoryPayload_cmp_overlap_witness:
  "MemoryPayload_cmp False
      (memory_region 109 0 3)
      (memory_region 114 0 3) = - 1
   \<and> MemoryPayload_cmp False
      (memory_region 109 0 3)
      (memory_region 109 2 9) = 0
   \<and> {0..3} \<inter> {2..9} \<noteq> ({} :: 64 word set)
   \<and> MemoryPayload_cmp False
      (memory_region 109 0 3)
      (memory_region 109 4 9) = - 1
   \<and> MemoryPayload_cmp False
      (memory_region 109 4 9)
      (memory_region 109 0 3) = 1
   \<and> MemorySubPayload_cmp \<lparr>lo = 0, hi = 3, contents = 0\<rparr> \<lparr>lo = 2, hi = 9, contents = 0\<rparr> = 0
   \<and> MemorySubPayload_cmp \<lparr>lo = 0, hi = 3, contents = 0\<rparr> \<lparr>lo = 4, hi = 9, contents = 0\<rparr> = - 1
   \<and> MemorySubPayload_cmp \<lparr>lo = 4, hi = 9, contents = 0\<rparr> \<lparr>lo = 0, hi = 3, contents = 0\<rparr> = 1"
  using
    MemoryPayload_cmp_overlap [of
      "memory_region 109 0 3"
      "memory_region 114 0 3" False
      "\<lparr>lo = 0, hi = 3, contents = 0\<rparr>" "\<lparr>lo = 2, hi = 9, contents = 0\<rparr>"]
    MemoryPayload_cmp_overlap [of
      "memory_region 109 0 3"
      "memory_region 109 2 9" False
      "\<lparr>lo = 0, hi = 3, contents = 0\<rparr>" "\<lparr>lo = 4, hi = 9, contents = 0\<rparr>"]
    MemoryPayload_cmp_overlap [of
      "memory_region 109 0 3"
      "memory_region 109 4 9" False
      "\<lparr>lo = 4, hi = 9, contents = 0\<rparr>" "\<lparr>lo = 0, hi = 3, contents = 0\<rparr>"]
    MemoryPayload_cmp_overlap [of
      "memory_region 109 4 9"
      "memory_region 109 0 3" False
      "\<lparr>lo = 4, hi = 9, contents = 0\<rparr>" "\<lparr>lo = 0, hi = 3, contents = 0\<rparr>"]
  by (simp add: char_less_def)

text \<open>
  C2 as stated, for every two payloads, fails where an interval has \<open>lo > hi\<close>: the
  payload with the empty interval \<open>[5, 3]\<close> compares equal to the one with \<open>[0, 10]\<close>
  although the two have no address in common, and the payload with \<open>lo = 10\<close>,
  \<open>hi = 0\<close> compares as \<open>-1\<close> against \<open>[5, 5]\<close> although its \<open>lo\<close> is greater than
  the other's \<open>hi\<close>.
\<close>

theorem MemoryPayload_cmp_overlap_counterexample:
  "MemoryPayload_cmp False
      (memory_region 109 5 3)
      (memory_region 109 0 10) = 0
   \<and> {MemoryPayload.lo (memory_region 109 5 3)
        ..MemoryPayload.hi (memory_region 109 5 3)}
       \<inter> {MemoryPayload.lo (memory_region 109 0 10)
          ..MemoryPayload.hi (memory_region 109 0 10)} = {}
   \<and> MemoryPayload.lo (memory_region 109 10 0)
       > MemoryPayload.hi (memory_region 109 5 5)
   \<and> MemoryPayload_cmp False
      (memory_region 109 10 0)
      (memory_region 109 5 5) = - 1
   \<and> MemorySubPayload.lo \<lparr>lo = 10, hi = 0, contents = 0\<rparr> > MemorySubPayload.hi \<lparr>lo = 5, hi = 5, contents = 0\<rparr>
   \<and> MemorySubPayload_cmp \<lparr>lo = 10, hi = 0, contents = 0\<rparr> \<lparr>lo = 5, hi = 5, contents = 0\<rparr> = - 1"
  by (simp add: MemoryPayload_cmp_def MemorySubPayload_cmp_def)

text \<open>
  C9, on well-formed intervals. For two memory payloads that both have \<open>lo \<le> hi\<close>,
  swapping the arguments of \<open>cmp\<close> negates the result, whatever the tags and whatever
  the signedness of \<open>char\<close>; the same holds for two memory sub-tree payloads.
\<close>

theorem MemoryPayload_cmp_antisym:
  "(MemoryPayload.lo a \<le> MemoryPayload.hi a \<and> MemoryPayload.lo b \<le> MemoryPayload.hi b \<longrightarrow>
      MemoryPayload_cmp sc b a = - MemoryPayload_cmp sc a b)
   \<and> (MemorySubPayload.lo s \<le> MemorySubPayload.hi s
        \<and> MemorySubPayload.lo t \<le> MemorySubPayload.hi t \<longrightarrow>
      MemorySubPayload_cmp t s = - MemorySubPayload_cmp s t)"
  using char_less_swap [of "MemoryPayload.type a" "MemoryPayload.type b" sc]
  by (auto simp add: MemoryPayload_cmp_def MemorySubPayload_cmp_def)

theorem MemoryPayload_cmp_antisym_witness:
  "MemoryPayload_cmp False
      (memory_region 109 0 3)
      (memory_region 109 4 9) = - 1
   \<and> MemoryPayload_cmp False
      (memory_region 109 4 9)
      (memory_region 109 0 3) = 1
   \<and> MemorySubPayload_cmp \<lparr>lo = 0, hi = 3, contents = 0\<rparr> \<lparr>lo = 4, hi = 9, contents = 0\<rparr> = - 1
   \<and> MemorySubPayload_cmp \<lparr>lo = 4, hi = 9, contents = 0\<rparr> \<lparr>lo = 0, hi = 3, contents = 0\<rparr> = 1"
  using
    MemoryPayload_cmp_antisym [of
      "memory_region 109 0 3"
      "memory_region 109 4 9" False
      "\<lparr>lo = 0, hi = 3, contents = 0\<rparr>" "\<lparr>lo = 4, hi = 9, contents = 0\<rparr>"]
  by (simp add: MemoryPayload_cmp_def MemorySubPayload_cmp_def)

text \<open>
  C9 as stated, for every two payloads, fails where an interval has \<open>lo > hi\<close>: with
  \<open>lo = 10\<close>, \<open>hi = 0\<close> on one side and \<open>[5, 5]\<close> on the other, both orders of the
  arguments give \<open>-1\<close>.
\<close>

theorem MemoryPayload_cmp_antisym_counterexample:
  "MemoryPayload_cmp False
      (memory_region 109 10 0)
      (memory_region 109 5 5) = - 1
   \<and> MemoryPayload_cmp False
      (memory_region 109 5 5)
      (memory_region 109 10 0) = - 1
   \<and> MemoryPayload_cmp True
      (memory_region 109 10 0)
      (memory_region 109 5 5) = - 1
   \<and> MemoryPayload_cmp True
      (memory_region 109 5 5)
      (memory_region 109 10 0) = - 1
   \<and> MemorySubPayload_cmp \<lparr>lo = 10, hi = 0, contents = 0\<rparr> \<lparr>lo = 5, hi = 5, contents = 0\<rparr> = - 1
   \<and> MemorySubPayload_cmp \<lparr>lo = 5, hi = 5, contents = 0\<rparr> \<lparr>lo = 10, hi = 0, contents = 0\<rparr> = - 1
   \<and> MemoryPayload_cmp False (memory_region 109 10 0) (memory_region 109 5 5)
       \<noteq> - MemoryPayload_cmp False (memory_region 109 5 5) (memory_region 109 10 0)
   \<and> MemorySubPayload_cmp \<lparr>lo = 10, hi = 0, contents = 0\<rparr> \<lparr>lo = 5, hi = 5, contents = 0\<rparr>
       \<noteq> - MemorySubPayload_cmp \<lparr>lo = 5, hi = 5, contents = 0\<rparr> \<lparr>lo = 10, hi = 0, contents = 0\<rparr>"
  by (simp add: MemoryPayload_cmp_def MemorySubPayload_cmp_def)

section \<open>The memory annotation\<close>

lemma unsigned_succ_ne0: "(a::32 word) \<noteq> - 1 \<Longrightarrow> a + 1 \<noteq> 0"
  by (metis add_neg_numeral_special(8) add_right_cancel)

lemma unsigned_succ_unat: "(a::32 word) \<noteq> - 1 \<Longrightarrow> unat (a + 1) = Suc (unat a)"
  using unatSuc [of a] unsigned_succ_ne0 [of a] by (simp add: add.commute)

lemma unsigned_succ_le:
  "(a::32 word) \<noteq> - 1 \<Longrightarrow> b \<noteq> - 1 \<Longrightarrow> (a + 1 \<le> b + 1) = (a \<le> b)"
  by (simp add: word_le_nat_alt unsigned_succ_unat)

lemma unsigned_max_succ:
  "(a::32 word) \<noteq> - 1 \<Longrightarrow> b \<noteq> - 1 \<Longrightarrow> max (a + 1) (b + 1) - 1 = max a b"
  by (simp add: max_def unsigned_succ_le)

lemma unsigned_max_wrap_left: "max ((- 1 :: 32 word) + 1) (b + 1) - 1 = b"
  by (simp add: max_def)

lemma unsigned_max_wrap_right: "max (a + 1) ((- 1 :: 32 word) + 1) - 1 = a"
  by (simp add: max_def)

text \<open>
  C1, away from the largest value. The combiner of two memory annotations yields the
  maximum of the two \<open>latest\<close> fields whenever neither of them is \<open>2^32 - 1\<close>. The
  value \<open>2^32 - 1\<close> wraps to 0 under the combiner's \<open>+ 1\<close> and so ranks below every
  other value: when one argument holds it, the result is the \<open>latest\<close> of the other
  argument.
\<close>

theorem MemoryAnnotation_combine_latest:
  "(latest a \<noteq> - 1 \<and> latest b \<noteq> - 1
      \<longrightarrow> latest (MemoryAnnotation_combine a b) = max (latest a) (latest b))
   \<and> (latest a = - 1 \<longrightarrow> latest (MemoryAnnotation_combine a b) = latest b)
   \<and> (latest b = - 1 \<longrightarrow> latest (MemoryAnnotation_combine a b) = latest a)
   \<and> unat (- 1 :: unsigned) = 2 ^ 32 - 1"
  by (simp add: MemoryAnnotation_combine_def unsigned_max_succ unsigned_max_wrap_left
      unsigned_max_wrap_right unsigned_minus_1_eq_mask mask_eq_exp_minus_1)

theorem MemoryAnnotation_combine_latest_witness:
  "latest (MemoryAnnotation_combine \<lparr>latest = 3\<rparr> \<lparr>latest = 7\<rparr>) = 7
   \<and> latest (MemoryAnnotation_combine \<lparr>latest = - 1\<rparr> \<lparr>latest = 7\<rparr>) = 7
   \<and> latest (MemoryAnnotation_combine \<lparr>latest = 7\<rparr> \<lparr>latest = - 1\<rparr>) = 7"
  using MemoryAnnotation_combine_latest [of "\<lparr>latest = 3\<rparr>" "\<lparr>latest = 7\<rparr>"]
    MemoryAnnotation_combine_latest [of "\<lparr>latest = - 1\<rparr>" "\<lparr>latest = 7\<rparr>"]
    MemoryAnnotation_combine_latest [of "\<lparr>latest = 7\<rparr>" "\<lparr>latest = - 1\<rparr>"]
  by simp

text \<open>
  C1 as stated, for all 32-bit values, fails at \<open>a.latest = 2^32 - 1\<close> and
  \<open>b.latest = 5\<close>: the combiner yields 5, the maximum is \<open>2^32 - 1\<close>.
\<close>

theorem MemoryAnnotation_combine_not_max:
  "latest (MemoryAnnotation_combine \<lparr>latest = 4294967295\<rparr> \<lparr>latest = 5\<rparr>) = 5
   \<and> max (latest \<lparr>latest = 4294967295\<rparr>) (latest \<lparr>latest = 5\<rparr>) = (4294967295 :: 32 word)
   \<and> latest (MemoryAnnotation_combine \<lparr>latest = 4294967295\<rparr> \<lparr>latest = 5\<rparr>)
       \<noteq> max (latest \<lparr>latest = 4294967295\<rparr>) (latest \<lparr>latest = 5\<rparr>)"
  by (simp add: MemoryAnnotation_combine_def)

text \<open>
  C10. The default memory annotation has \<open>latest = 0\<close>, and it is an identity of the
  combiner on either side for every annotation whose \<open>latest\<close> is below \<open>2^32 - 1\<close>.
  The annotation constructed from a single payload has the payload's
  \<open>trace_file_firstline\<close> as its \<open>latest\<close>.
\<close>

theorem MemoryAnnotation_default_identity:
  "latest MemoryAnnotation_default = 0
   \<and> (unat (latest a) < 2 ^ 32 - 1
        \<longrightarrow> latest (MemoryAnnotation_combine a MemoryAnnotation_default) = latest a
          \<and> latest (MemoryAnnotation_combine MemoryAnnotation_default a) = latest a)
   \<and> latest (MemoryAnnotation_of_payload p) = MemoryPayload.trace_file_firstline p"
proof -
  have "unat (- 1 :: 32 word) = 2 ^ 32 - 1"
    by (simp add: unsigned_minus_1_eq_mask mask_eq_exp_minus_1)
  then have "latest a \<noteq> - 1" if "unat (latest a) < 2 ^ 32 - 1"
    using that by auto
  moreover have "max x 0 = x" "max 0 x = x" for x :: "32 word"
    by (simp_all add: max_def)
  ultimately show ?thesis
    using unsigned_max_succ [of "latest a" 0] unsigned_max_succ [of 0 "latest a"]
    by (simp add: MemoryAnnotation_default_def MemoryAnnotation_combine_def
        MemoryAnnotation_of_payload_def)
qed

theorem MemoryAnnotation_default_identity_witness:
  "unat (latest \<lparr>latest = 5\<rparr>) < 2 ^ 32 - 1
   \<and> latest (MemoryAnnotation_combine \<lparr>latest = 5\<rparr> MemoryAnnotation_default) = 5
   \<and> latest (MemoryAnnotation_combine MemoryAnnotation_default \<lparr>latest = 5\<rparr>) = 5"
  using MemoryAnnotation_default_identity [of "\<lparr>latest = 5\<rparr>"]
  by simp

section \<open>The call-depth array of a leaf\<close>

text \<open>
  C4, with the two counts of the closing entry the other way round. The call-depth array
  of a leaf node has exactly two entries: the first with the node's call depth and both
  cumulative counts 0, the second with \<open>call_depth = SENTINEL_DEPTH = 2^32 - 2\<close>,
  \<open>cumulative_insns = 1\<close> and \<open>cumulative_lines\<close> equal to the node's
  \<open>trace_file_lines\<close>.
\<close>

theorem leaf_call_depth_array_entries:
  "length (leaf_call_depth_array node) = 2
   \<and> CallDepthArrayEntry.call_depth (leaf_call_depth_array node ! 0) = SeqOrderPayload.call_depth node
   \<and> cumulative_lines (leaf_call_depth_array node ! 0) = 0
   \<and> cumulative_insns (leaf_call_depth_array node ! 0) = 0
   \<and> CallDepthArrayEntry.call_depth (leaf_call_depth_array node ! 1) = SENTINEL_DEPTH
   \<and> cumulative_insns (leaf_call_depth_array node ! 1) = 1
   \<and> cumulative_lines (leaf_call_depth_array node ! 1) = trace_file_lines node
   \<and> unat SENTINEL_DEPTH = 2 ^ 32 - 2"
  by (simp add: leaf_call_depth_array_def SENTINEL_DEPTH_def UINT_MAX_def)

text \<open>
  C4 as stated puts 1 into \<open>cumulative_lines\<close> and the node's line count into
  \<open>cumulative_insns\<close>. For a leaf that covers three trace lines the closing entry has
  \<open>cumulative_lines = 3\<close> and \<open>cumulative_insns = 1\<close>.
\<close>

theorem leaf_call_depth_array_counts_not_swapped:
  "cumulative_lines (leaf_call_depth_array
        \<lparr>mod_time = 10, SeqOrderPayload.pc = 256, trace_file_pos = 0, trace_file_len = 90,
         SeqOrderPayload.trace_file_firstline = 1, trace_file_lines = 3, memory_root = 0,
         SeqOrderPayload.call_depth = 2\<rparr> ! 1) = 3
   \<and> cumulative_lines (leaf_call_depth_array
        \<lparr>mod_time = 10, SeqOrderPayload.pc = 256, trace_file_pos = 0, trace_file_len = 90,
         SeqOrderPayload.trace_file_firstline = 1, trace_file_lines = 3, memory_root = 0,
         SeqOrderPayload.call_depth = 2\<rparr> ! 1) \<noteq> 1
   \<and> cumulative_insns (leaf_call_depth_array
        \<lparr>mod_time = 10, SeqOrderPayload.pc = 256, trace_file_pos = 0, trace_file_len = 90,
         SeqOrderPayload.trace_file_firstline = 1, trace_file_lines = 3, memory_root = 0,
         SeqOrderPayload.call_depth = 2\<rparr> ! 1) = 1
   \<and> cumulative_insns (leaf_call_depth_array
        \<lparr>mod_time = 10, SeqOrderPayload.pc = 256, trace_file_pos = 0, trace_file_len = 90,
         SeqOrderPayload.trace_file_firstline = 1, trace_file_lines = 3, memory_root = 0,
         SeqOrderPayload.call_depth = 2\<rparr> ! 1) \<noteq> trace_file_lines
        \<lparr>mod_time = 10, SeqOrderPayload.pc = 256, trace_file_pos = 0, trace_file_len = 90,
         SeqOrderPayload.trace_file_firstline = 1, trace_file_lines = 3, memory_root = 0,
         SeqOrderPayload.call_depth = 2\<rparr>"
  by (simp add: leaf_call_depth_array_def)

lemma complete_flag_absent_iff: "(w AND (4 :: 32 word) = 0) = (\<not> bit w 2)"
  using and_exp_eq_0_iff_not_bit [of w 2] by simp

section \<open>The state of an index header\<close>

text \<open>
  C5. \<open>check_index_header\<close> returns one of three distinct states: \<open>WrongMagic\<close> exactly
  when the magic number does not match the reference value, \<open>Incomplete\<close> exactly when
  the magic number matches and the \<open>COMPLETE\<close> flag is absent from the header's flags,
  and \<open>OK\<close> exactly when the magic number matches and the \<open>COMPLETE\<close> flag is set.
\<close>

theorem check_index_header_states:
  "(check_index_header ref m hdr = WrongMagic) = (\<not> MagicNumber_check ref m)
   \<and> (check_index_header ref m hdr = Incomplete)
       = (MagicNumber_check ref m \<and> \<not> bit (flags hdr) 2)
   \<and> (check_index_header ref m hdr = OK)
       = (MagicNumber_check ref m \<and> bit (flags hdr) 2)
   \<and> OK \<noteq> WrongMagic \<and> OK \<noteq> Incomplete \<and> WrongMagic \<noteq> Incomplete
   \<and> FLAG_COMPLETE = push_bit 2 1"
  by (simp add: check_index_header_def complete_flag_absent_iff FLAG_COMPLETE_def)

section \<open>Call-depth arrays and their cross-links\<close>

lemma leaf_array_agrees:
  assumes "SeqOrderPayload.call_depth p < SENTINEL_DEPTH"
  shows "call_depth_array (SeqNode SeqNil p SeqNil) = leaf_call_depth_array p"
proof -
  let ?d = "SeqOrderPayload.call_depth p"
  from assms have ne: "?d \<noteq> SENTINEL_DEPTH" and le: "?d \<le> SENTINEL_DEPTH" by simp_all
  have "sort (remdups [?d, SENTINEL_DEPTH]) = [?d, SENTINEL_DEPTH]"
    using ne le by simp
  then show ?thesis
    using assms
    by (simp add: call_depth_array.simps merge_arrays_def leaf_call_depth_array_def first_ge_def
        array_lines_def array_insns_def)
qed







lemma lines_below_append [simp]:
  "lines_below D (xs @ ys) = lines_below D xs + lines_below D ys"
  by (simp add: lines_below_def)

lemma lines_below_Nil [simp]: "lines_below D [] = 0"
  by (simp add: lines_below_def)

lemma lines_below_replicate [simp]:
  "lines_below D (replicate n d) = (if d < D then n else 0)"
  by (simp add: lines_below_def)




lemma tree_lines_node [simp]:
  "tree_lines (SeqNode l p r) = tree_lines l @ node_lines p @ tree_lines r"
  by (simp add: tree_lines_def trace_line_depths_def)

lemma tree_lines_nil [simp]: "tree_lines SeqNil = []"
  by (simp add: tree_lines_def trace_line_depths_def)

lemma good_depths_node [simp]:
  "good_depths (SeqNode l p r) =
     (good_depths l \<and> SeqOrderPayload.call_depth p < SENTINEL_DEPTH \<and> good_depths r)"
  by (auto simp add: good_depths_def)



















section \<open>Lookups in the layered range tree\<close>

lemma range_count_simps [simp]:
  "range_count lower upper [] = 0"
  "range_count lower upper (x # xs) = (if depth_in_range lower upper x then Suc (range_count lower upper xs) else range_count lower upper xs)"
  "range_count lower upper (xs @ ys) = range_count lower upper xs + range_count lower upper ys"
  "range_count lower upper (replicate n d) = (if depth_in_range lower upper d then n else 0)"
  by (simp_all add: range_count_def)











declare call_depth_array.simps(2) [simp del]













end
